theory Spec2Isabelle
  imports Main
begin

section \<open>The platform objects used by \<open>src/realtime/sse.ts\<close>\<close>

text \<open>
  \<open>StreamConnection\<close> is built on three platform objects that are not part of the
  repository: the \<open>URL\<close> object it receives, the \<open>EventSource\<close> transport it owns,
  and the \<open>EventEmitter\<close> it extends. Each is modelled by the part of its documented
  behaviour that the class uses. Strings are byte strings (UTF-8). JavaScript numbers
  are modelled by \<open>int\<close>: the counters and delays of the class are integral and far
  below \<open>2^53\<close>, where doubles are exact.
\<close>

subsection \<open>URL objects\<close>

text \<open>
  A \<open>URL\<close> object holds a query string and, in its \<open>searchParams\<close> object, a list of
  name/value pairs. \<open>searchParams.append\<close> adds a pair to the list and replaces the
  query string by the \<open>application/x-www-form-urlencoded\<close> serialisation of the list;
  \<open>toString\<close> prints base, query and fragment.
\<close>

record url =
  u_base :: string
  u_query :: "string option"
  u_params :: "(string \<times> string) list"
  u_hash :: string

definition hex_digit :: "nat \<Rightarrow> char" where
  "hex_digit n = ''0123456789ABCDEF'' ! (n mod 16)"

definition unreserved :: "char \<Rightarrow> bool" where
  "unreserved c =
     (let n = (of_char c :: nat)
      in (48 \<le> n \<and> n \<le> 57) \<or> (65 \<le> n \<and> n \<le> 90) \<or> (97 \<le> n \<and> n \<le> 122)
         \<or> c = CHR ''*'' \<or> c = CHR ''-'' \<or> c = CHR ''.'' \<or> c = CHR ''_'')"

definition encode_byte :: "char \<Rightarrow> string" where
  "encode_byte c =
     (if c = CHR '' '' then ''+''
      else if unreserved c then [c]
      else [CHR ''%'', hex_digit ((of_char c :: nat) div 16), hex_digit ((of_char c :: nat) mod 16)])"

definition urlencode :: "string \<Rightarrow> string" where
  "urlencode s = concat (map encode_byte s)"

fun serialize_params :: "(string \<times> string) list \<Rightarrow> string" where
  "serialize_params [] = []"
| "serialize_params [(k, v)] = urlencode k @ ''='' @ urlencode v"
| "serialize_params ((k, v) # ps) = urlencode k @ ''='' @ urlencode v @ ''&'' @ serialize_params ps"

definition searchParams_append :: "url \<Rightarrow> string \<Rightarrow> string \<Rightarrow> url" where
  "searchParams_append u k v =
     (let ps = u_params u @ [(k, v)]; q = serialize_params ps
      in u\<lparr>u_query := (if q = [] then None else Some q), u_params := ps\<rparr>)"

definition url_toString :: "url \<Rightarrow> string" where
  "url_toString u =
     u_base u @ (case u_query u of None \<Rightarrow> [] | Some q \<Rightarrow> CHR ''?'' # q) @ u_hash u"

subsection \<open>The transport: \<open>EventSource\<close>\<close>

text \<open>
  A transport has a url, a ready state, the two handler slots \<open>onopen\<close> and \<open>onerror\<close>
  and the listeners added with \<open>addEventListener\<close>, in the order of their addition.
  The class installs only its own closures, so a slot is a flag and a listener is named
  by the closure it is.
\<close>

datatype ready_state = CONNECTING | OPEN | CLOSED

datatype wire_listener = StreamEventListener | BatchCreatedListener | MessageListener

record transport =
  t_url :: string
  readyState :: ready_state
  onopen :: bool
  onerror :: bool
  wire_listeners :: "(string \<times> wire_listener) list"

definition new_EventSource :: "string \<Rightarrow> transport" where
  "new_EventSource href =
     \<lparr>t_url = href, readyState = CONNECTING, onopen = False, onerror = False,
      wire_listeners = []\<rparr>"

definition es_close :: "transport \<Rightarrow> transport" where
  "es_close t = t\<lparr>readyState := CLOSED\<rparr>"

subsection \<open>The connection object and what it does to the outside\<close>

text \<open>
  Everything the connection does that can be observed is appended to a trace: the calls
  of \<open>emit\<close>, the listener invocations they cause, an exception leaving \<open>emit\<close>, the
  transports opened and closed, and the timers set.
\<close>

datatype 'j payload =
    NoPayload
  | TransportEvent nat
  | LocalError string
  | Parsed 'j
  | Raw string

datatype 'j effect =
    Emitted string "'j payload"
  | Called nat "'j payload"
  | Thrown "'j payload"
  | Opened string
  | TransportClosed
  | SetTimeout int

record 'j conn =
  eventSource :: transport
  reconnectAttempts :: int
  maxReconnectAttempts :: int
  reconnectDelay :: int
  isReconnecting :: bool
  listeners :: "(string \<times> nat) list"
  timers :: "int list"
  trace :: "'j effect list"

text \<open>
  \<open>EventEmitter.on\<close> appends the listener to the registrations of its category.
  \<open>EventEmitter.emit\<close> calls the listeners of the category in registration order; for
  the category \<open>error\<close> with no listener registered it throws its argument instead
  (the result \<open>True\<close>). Listeners are the caller's code: a listener is named by a
  number and taken to return normally. What a listener does to the connection from
  inside, a call of \<open>close()\<close> for one, is not part of \<open>emit\<close>: the calls of the caller
  are functions of the state, and what is proved of them is proved for every state, the
  one a listener finds included.
\<close>

definition on :: "'j conn \<Rightarrow> string \<Rightarrow> nat \<Rightarrow> 'j conn" where
  "on s cat l = s\<lparr>listeners := listeners s @ [(cat, l)]\<rparr>"

definition listeners_of :: "(string \<times> nat) list \<Rightarrow> string \<Rightarrow> nat list" where
  "listeners_of ls cat = map snd (filter (\<lambda>r. fst r = cat) ls)"

definition emit :: "'j conn \<Rightarrow> string \<Rightarrow> 'j payload \<Rightarrow> bool \<times> 'j conn" where
  "emit s cat p =
     (let ls = listeners_of (listeners s) cat
      in if cat = ''error'' \<and> ls = []
         then (True, s\<lparr>trace := trace s @ [Emitted cat p, Thrown p]\<rparr>)
         else (False, s\<lparr>trace := trace s @ Emitted cat p # map (\<lambda>l. Called l p) ls\<rparr>))"

section \<open>\<open>StreamConnection\<close>\<close>

definition setupListeners :: "'j conn \<Rightarrow> 'j conn" where
  "setupListeners s =
     s\<lparr>eventSource := (eventSource s)
        \<lparr>onopen := True, onerror := True,
         wire_listeners := wire_listeners (eventSource s) @
           [(''stream_event'', StreamEventListener),
            (''batch_created'', BatchCreatedListener),
            (''message'', MessageListener)]\<rparr>\<rparr>"

definition construct :: "url \<Rightarrow> string option \<Rightarrow> 'j conn" where
  "construct u apiKey =
     (let u' = (case apiKey of
                  None \<Rightarrow> u
                | Some k \<Rightarrow> if k \<noteq> [] then searchParams_append u ''api_key'' k else u);
          href = url_toString u'
      in setupListeners
           \<lparr>eventSource = new_EventSource href, reconnectAttempts = 0,
            maxReconnectAttempts = 5, reconnectDelay = 1000, isReconnecting = False,
            listeners = [], timers = [], trace = [Opened href]\<rparr>)"

definition onopen_handler :: "'j conn \<Rightarrow> 'j conn" where
  "onopen_handler s =
     (let (threw, s1) = emit s ''open'' NoPayload
      in if threw then s1 else s1\<lparr>reconnectAttempts := 0, reconnectDelay := 1000\<rparr>)"

definition handleReconnection :: "'j conn \<Rightarrow> 'j conn" where
  "handleReconnection s =
     (if reconnectAttempts s \<ge> maxReconnectAttempts s
      then snd (emit s ''error'' (LocalError ''Max reconnection attempts reached''))
      else
        let s1 = s\<lparr>isReconnecting := True, reconnectAttempts := reconnectAttempts s + 1\<rparr>;
            s2 = s1\<lparr>timers := timers s1 @ [reconnectDelay s1],
                    trace := trace s1 @ [SetTimeout (reconnectDelay s1)]\<rparr>
        in s2\<lparr>reconnectDelay := min (reconnectDelay s2 * 2) 30000\<rparr>)"

definition onerror_handler :: "'j conn \<Rightarrow> nat \<Rightarrow> 'j conn" where
  "onerror_handler s e =
     (let (threw, s1) = emit s ''error'' (TransportEvent e)
      in if threw then s1
         else if readyState (eventSource s1) = CLOSED \<and> \<not> isReconnecting s1
              then handleReconnection s1
              else s1)"

text \<open>
  The three frame listeners. \<open>parse\<close> is \<open>JSON.parse\<close>: \<open>Inr v\<close> is the parsed value,
  \<open>Inl e\<close> the text of the exception it throws.
\<close>

definition on_stream_event :: "(string \<Rightarrow> string + 'j) \<Rightarrow> 'j conn \<Rightarrow> string \<Rightarrow> 'j conn" where
  "on_stream_event parse s data =
     (case parse data of
        Inr v \<Rightarrow> snd (emit s ''stream_event'' (Parsed v))
      | Inl err \<Rightarrow> snd (emit s ''error'' (LocalError (''Failed to parse stream_event: '' @ err))))"

definition on_batch_created :: "(string \<Rightarrow> string + 'j) \<Rightarrow> 'j conn \<Rightarrow> string \<Rightarrow> 'j conn" where
  "on_batch_created parse s data =
     (case parse data of
        Inr v \<Rightarrow> snd (emit s ''batch_created'' (Parsed v))
      | Inl err \<Rightarrow> snd (emit s ''error'' (LocalError (''Failed to parse batch_created: '' @ err))))"

definition on_message :: "(string \<Rightarrow> string + 'j) \<Rightarrow> 'j conn \<Rightarrow> string \<Rightarrow> 'j conn" where
  "on_message parse s data =
     (case parse data of
        Inr v \<Rightarrow> snd (emit s ''message'' (Parsed v))
      | Inl err \<Rightarrow> snd (emit s ''message'' (Raw data)))"

text \<open>
  The callback given to \<open>setTimeout\<close>. Its \<open>try\<close> block re-parses the url of the current
  transport, which is a serialised absolute url, so neither \<open>new URL\<close> nor
  \<open>new EventSource\<close> throws there and the \<open>catch\<close> branch is not entered.
\<close>

definition reconnect_callback :: "'j conn \<Rightarrow> 'j conn" where
  "reconnect_callback s =
     (let href = t_url (eventSource s);
          s1 = s\<lparr>eventSource := es_close (eventSource s), trace := trace s @ [TransportClosed]\<rparr>;
          s2 = s1\<lparr>eventSource := new_EventSource href, trace := trace s1 @ [Opened href]\<rparr>;
          s3 = setupListeners s2
      in s3\<lparr>isReconnecting := False\<rparr>)"

definition get_url :: "'j conn \<Rightarrow> string" where
  "get_url s = t_url (eventSource s)"

definition close :: "'j conn \<Rightarrow> 'j conn" where
  "close s =
     snd (emit (s\<lparr>eventSource := es_close (eventSource s), trace := trace s @ [TransportClosed]\<rparr>)
            ''close'' NoPayload)"

definition setMaxReconnectAttempts :: "'j conn \<Rightarrow> int \<Rightarrow> 'j conn" where
  "setMaxReconnectAttempts s maxAttempts = s\<lparr>maxReconnectAttempts := maxAttempts\<rparr>"

definition setReconnectDelay :: "'j conn \<Rightarrow> int \<Rightarrow> 'j conn" where
  "setReconnectDelay s delay = s\<lparr>reconnectDelay := delay\<rparr>"

section \<open>What reaches the connection\<close>

text \<open>
  The connection reacts to callbacks of its current transport, to its timers and to the
  caller. An error callback carries the ready state the transport reports when the
  handler runs and the event object; a frame carries its category and its data; a timer
  is named by its position among the pending ones. What the transport sends, and when,
  is the platform's choice and is not restricted here. A transport that the timer
  callback has replaced was closed by it and delivers nothing more, so callbacks come
  from the current transport only. All callbacks given to \<open>setTimeout\<close> are the one
  closure of \<open>handleReconnection\<close>, so a pending timer is its delay.
\<close>

datatype event =
    TransportOpen
  | TransportError ready_state nat
  | TransportFrame string string
  | TimerFired nat
  | CallOn string nat
  | CallClose
  | CallSetMaxReconnectAttempts int
  | CallSetReconnectDelay int

fun run_wire_listener ::
  "(string \<Rightarrow> string + 'j) \<Rightarrow> wire_listener \<Rightarrow> 'j conn \<Rightarrow> string \<Rightarrow> 'j conn" where
  "run_wire_listener parse StreamEventListener s data = on_stream_event parse s data"
| "run_wire_listener parse BatchCreatedListener s data = on_batch_created parse s data"
| "run_wire_listener parse MessageListener s data = on_message parse s data"

definition dispatch_frame ::
  "(string \<Rightarrow> string + 'j) \<Rightarrow> 'j conn \<Rightarrow> string \<Rightarrow> string \<Rightarrow> 'j conn" where
  "dispatch_frame parse s cat data =
     fold (\<lambda>r s'. if fst r = cat then run_wire_listener parse (snd r) s' data else s')
          (wire_listeners (eventSource s)) s"

fun step :: "(string \<Rightarrow> string + 'j) \<Rightarrow> 'j conn \<Rightarrow> event \<Rightarrow> 'j conn" where
  "step parse s TransportOpen =
     (let s1 = s\<lparr>eventSource := (eventSource s)\<lparr>readyState := OPEN\<rparr>\<rparr>
      in if onopen (eventSource s1) then onopen_handler s1 else s1)"
| "step parse s (TransportError rs e) =
     (let s1 = s\<lparr>eventSource := (eventSource s)\<lparr>readyState := rs\<rparr>\<rparr>
      in if onerror (eventSource s1) then onerror_handler s1 e else s1)"
| "step parse s (TransportFrame cat data) = dispatch_frame parse s cat data"
| "step parse s (TimerFired k) =
     (if k < length (timers s)
      then reconnect_callback (s\<lparr>timers := take k (timers s) @ drop (Suc k) (timers s)\<rparr>)
      else s)"
| "step parse s (CallOn cat l) = on s cat l"
| "step parse s CallClose = close s"
| "step parse s (CallSetMaxReconnectAttempts n) = setMaxReconnectAttempts s n"
| "step parse s (CallSetReconnectDelay d) = setReconnectDelay s d"

definition run :: "(string \<Rightarrow> string + 'j) \<Rightarrow> 'j conn \<Rightarrow> event list \<Rightarrow> 'j conn" where
  "run parse s evs = foldl (step parse) s evs"

text \<open>The handlers that \<open>setupListeners\<close> leaves on a fresh transport.\<close>

definition wired :: "'j conn \<Rightarrow> bool" where
  "wired s =
     (onopen (eventSource s) \<and> onerror (eventSource s) \<and>
      wire_listeners (eventSource s) =
        [(''stream_event'', StreamEventListener),
         (''batch_created'', BatchCreatedListener),
         (''message'', MessageListener)])"

section \<open>Reading the trace\<close>

definition emitted :: "string \<Rightarrow> 'j effect list \<Rightarrow> 'j payload list" where
  "emitted cat tr = concat (map (\<lambda>x. case x of Emitted c p \<Rightarrow> (if c = cat then [p] else []) | _ \<Rightarrow> []) tr)"

definition opened :: "'j effect list \<Rightarrow> nat" where
  "opened tr = length (filter (\<lambda>x. case x of Opened h \<Rightarrow> True | _ \<Rightarrow> False) tr)"

definition timeouts :: "'j effect list \<Rightarrow> int list" where
  "timeouts tr = concat (map (\<lambda>x. case x of SetTimeout d \<Rightarrow> [d] | _ \<Rightarrow> []) tr)"

definition calls :: "nat \<Rightarrow> 'j effect list \<Rightarrow> 'j payload list" where
  "calls l tr = concat (map (\<lambda>x. case x of Called l' p \<Rightarrow> (if l' = l then [p] else []) | _ \<Rightarrow> []) tr)"

definition thrown :: "'j effect list \<Rightarrow> nat" where
  "thrown tr = length (filter (\<lambda>x. case x of Thrown p \<Rightarrow> True | _ \<Rightarrow> False) tr)"

definition terminal_errors :: "'j effect list \<Rightarrow> nat" where
  "terminal_errors tr =
     length (filter (\<lambda>p. p = LocalError ''Max reconnection attempts reached'') (emitted ''error'' tr))"

text \<open>
  A run of definitive closures, each answered by the reconnection timer (when one was
  set) before the next: the error callback with ready state \<open>CLOSED\<close>, then the timer.
\<close>

definition closure_rounds :: "nat list \<Rightarrow> event list" where
  "closure_rounds es = concat (map (\<lambda>e. [TransportError CLOSED e, TimerFired 0]) es)"

section \<open>Inputs of the examples\<close>

text \<open>
  The url of a stream subscription, as \<open>StreamsResource.subscribe\<close> builds it, and the
  values of \<open>JSON.parse\<close> on the two texts the examples send: \<open>42\<close> is the number 42,
  and \<open>{\<close> is rejected.
\<close>

definition example_url :: url where
  "example_url =
     \<lparr>u_base = ''https://host/sse/streams/stream_1'', u_query = None, u_params = [], u_hash = []\<rparr>"

definition example_parse :: "string \<Rightarrow> string + nat" where
  "example_parse d = (if d = ''42'' then Inr 42 else Inl ''SyntaxError'')"

section \<open>Basic facts\<close>

subsection \<open>The trace readers\<close>

lemma emitted_simps [simp]:
  "emitted cat [] = []"
  "emitted cat (Emitted c p # xs) = (if c = cat then p # emitted cat xs else emitted cat xs)"
  "emitted cat (Called l p # xs) = emitted cat xs"
  "emitted cat (Thrown p # xs) = emitted cat xs"
  "emitted cat (Opened h # xs) = emitted cat xs"
  "emitted cat (TransportClosed # xs) = emitted cat xs"
  "emitted cat (SetTimeout d # xs) = emitted cat xs"
  "emitted cat (xs @ ys) = emitted cat xs @ emitted cat ys"
  by (simp_all add: emitted_def)

lemma opened_simps [simp]:
  "opened [] = 0"
  "opened (Emitted c p # xs) = opened xs"
  "opened (Called l p # xs) = opened xs"
  "opened (Thrown p # xs) = opened xs"
  "opened (Opened h # xs) = Suc (opened xs)"
  "opened (TransportClosed # xs) = opened xs"
  "opened (SetTimeout d # xs) = opened xs"
  "opened (xs @ ys) = opened xs + opened ys"
  by (simp_all add: opened_def)

lemma timeouts_simps [simp]:
  "timeouts [] = []"
  "timeouts (Emitted c p # xs) = timeouts xs"
  "timeouts (Called l p # xs) = timeouts xs"
  "timeouts (Thrown p # xs) = timeouts xs"
  "timeouts (Opened h # xs) = timeouts xs"
  "timeouts (TransportClosed # xs) = timeouts xs"
  "timeouts (SetTimeout d # xs) = d # timeouts xs"
  "timeouts (xs @ ys) = timeouts xs @ timeouts ys"
  by (simp_all add: timeouts_def)

lemma calls_simps [simp]:
  "calls l [] = []"
  "calls l (Emitted c p # xs) = calls l xs"
  "calls l (Called l' p # xs) = (if l' = l then p # calls l xs else calls l xs)"
  "calls l (Thrown p # xs) = calls l xs"
  "calls l (Opened h # xs) = calls l xs"
  "calls l (TransportClosed # xs) = calls l xs"
  "calls l (SetTimeout d # xs) = calls l xs"
  "calls l (xs @ ys) = calls l xs @ calls l ys"
  by (simp_all add: calls_def)

lemma thrown_simps [simp]:
  "thrown [] = 0"
  "thrown (Emitted c p # xs) = thrown xs"
  "thrown (Called l p # xs) = thrown xs"
  "thrown (Thrown p # xs) = Suc (thrown xs)"
  "thrown (Opened h # xs) = thrown xs"
  "thrown (TransportClosed # xs) = thrown xs"
  "thrown (SetTimeout d # xs) = thrown xs"
  "thrown (xs @ ys) = thrown xs + thrown ys"
  by (simp_all add: thrown_def)

lemma readers_of_calls [simp]:
  "emitted cat (map (\<lambda>l. Called l p) ls) = []"
  "opened (map (\<lambda>l. Called l p) ls) = 0"
  "timeouts (map (\<lambda>l. Called l p) ls) = []"
  "thrown (map (\<lambda>l. Called l p) ls) = 0"
  by (induction ls) simp_all

lemma calls_of_calls [simp]:
  "calls l (map (\<lambda>l'. Called l' p) ls) = replicate (count_list ls l) p"
  by (induction ls) simp_all

lemma terminal_errors_simps [simp]:
  "terminal_errors [] = 0"
  "terminal_errors (Emitted c p # xs) =
     (if c = ''error'' \<and> p = LocalError ''Max reconnection attempts reached''
      then Suc (terminal_errors xs) else terminal_errors xs)"
  "terminal_errors (Called l p # xs) = terminal_errors xs"
  "terminal_errors (Thrown p # xs) = terminal_errors xs"
  "terminal_errors (Opened h # xs) = terminal_errors xs"
  "terminal_errors (TransportClosed # xs) = terminal_errors xs"
  "terminal_errors (SetTimeout d # xs) = terminal_errors xs"
  "terminal_errors (xs @ ys) = terminal_errors xs + terminal_errors ys"
  "terminal_errors (map (\<lambda>l. Called l p) ls) = 0"
  by (simp_all add: terminal_errors_def)

subsection \<open>\<open>emit\<close>\<close>

lemma emit_fields [simp]:
  "eventSource (snd (emit s cat p)) = eventSource s"
  "reconnectAttempts (snd (emit s cat p)) = reconnectAttempts s"
  "maxReconnectAttempts (snd (emit s cat p)) = maxReconnectAttempts s"
  "reconnectDelay (snd (emit s cat p)) = reconnectDelay s"
  "isReconnecting (snd (emit s cat p)) = isReconnecting s"
  "listeners (snd (emit s cat p)) = listeners s"
  "timers (snd (emit s cat p)) = timers s"
  by (simp_all add: emit_def Let_def)

lemma emit_threw:
  "fst (emit s cat p) = (cat = ''error'' \<and> listeners_of (listeners s) cat = [])"
  by (auto simp add: emit_def Let_def)

lemma emit_trace:
  "trace (snd (emit s cat p)) =
     trace s @ Emitted cat p #
       (if cat = ''error'' \<and> listeners_of (listeners s) cat = [] then [Thrown p]
        else map (\<lambda>l. Called l p) (listeners_of (listeners s) cat))"
  by (auto simp add: emit_def Let_def)

lemma emit_restore: "(snd (emit s cat p))\<lparr>trace := trace s\<rparr> = s"
  by (simp add: emit_def Let_def)

lemma emit_opened [simp]: "opened (trace (snd (emit s cat p))) = opened (trace s)"
  by (simp add: emit_trace)

lemma emit_timeouts [simp]: "timeouts (trace (snd (emit s cat p))) = timeouts (trace s)"
  by (simp add: emit_trace)

subsection \<open>The handlers, case by case\<close>

lemma handleReconnection_cases:
  "handleReconnection s =
     (if reconnectAttempts s \<ge> maxReconnectAttempts s
      then snd (emit s ''error'' (LocalError ''Max reconnection attempts reached''))
      else s\<lparr>isReconnecting := True, reconnectAttempts := reconnectAttempts s + 1,
             timers := timers s @ [reconnectDelay s],
             trace := trace s @ [SetTimeout (reconnectDelay s)],
             reconnectDelay := min (reconnectDelay s * 2) 30000\<rparr>)"
  by (simp add: handleReconnection_def Let_def)

lemma onerror_handler_cases:
  "onerror_handler s e =
     (if listeners_of (listeners s) ''error'' = []
      then snd (emit s ''error'' (TransportEvent e))
      else if readyState (eventSource s) = CLOSED \<and> \<not> isReconnecting s
           then handleReconnection (snd (emit s ''error'' (TransportEvent e)))
           else snd (emit s ''error'' (TransportEvent e)))"
  by (simp add: onerror_handler_def split_beta emit_threw)

lemma onopen_handler_eq:
  "onopen_handler s = (snd (emit s ''open'' NoPayload))\<lparr>reconnectAttempts := 0, reconnectDelay := 1000\<rparr>"
  by (simp add: onopen_handler_def split_beta emit_threw)

subsection \<open>The wiring of the current transport\<close>

text \<open>
  The current transport always carries the handlers that \<open>setupListeners\<close> installs, once:
  the constructor and the timer callback call \<open>setupListeners\<close> on a fresh transport, and
  nothing else touches the handlers.
\<close>

lemma wired_construct: "wired (construct u apiKey)"
  by (simp add: wired_def construct_def setupListeners_def new_EventSource_def Let_def)

lemma wired_emit [simp]: "wired (snd (emit s cat p)) = wired s"
  by (simp add: wired_def)

lemma dispatch_frame_wired:
  "wired s \<Longrightarrow> dispatch_frame parse s cat data =
     (if cat = ''stream_event'' then on_stream_event parse s data
      else if cat = ''batch_created'' then on_batch_created parse s data
      else if cat = ''message'' then on_message parse s data
      else s)"
  by (simp add: wired_def dispatch_frame_def)

lemma wired_frame_listeners:
  "wired (on_stream_event parse s data) = wired s"
  "wired (on_batch_created parse s data) = wired s"
  "wired (on_message parse s data) = wired s"
  by (simp_all add: on_stream_event_def on_batch_created_def on_message_def split: sum.splits)

lemma wired_reconnect_callback: "wired (reconnect_callback s)"
  by (simp add: wired_def reconnect_callback_def setupListeners_def new_EventSource_def Let_def)

lemma wired_step:
  assumes "wired s"
  shows "wired (step parse s ev)"
proof (cases ev)
  case (TransportFrame cat data)
  with assms show ?thesis
    by (simp add: dispatch_frame_wired wired_frame_listeners)
next
  case (TimerFired k)
  with assms show ?thesis
    by (simp add: wired_reconnect_callback)
next
  case TransportOpen
  with assms show ?thesis
    by (simp add: wired_def onopen_handler_eq Let_def)
next
  case (TransportError rs e)
  with assms show ?thesis
    by (simp add: wired_def onerror_handler_cases handleReconnection_cases Let_def)
qed (use assms in \<open>simp_all add: wired_def on_def close_def es_close_def
      setMaxReconnectAttempts_def setReconnectDelay_def\<close>)

lemma wired_run: "wired s \<Longrightarrow> wired (run parse s evs)"
  unfolding run_def by (induction evs arbitrary: s) (simp_all add: wired_step)

lemma run_simps [simp]:
  "run parse s [] = s"
  "run parse s (ev # evs) = run parse (step parse s ev) evs"
  by (simp_all add: run_def)

lemma run_append: "run parse s (xs @ ys) = run parse (run parse s xs) ys"
  by (simp add: run_def)

subsection \<open>One step, field by field\<close>

lemmas handler_cases =
  Let_def onopen_handler_eq onerror_handler_cases handleReconnection_cases
  reconnect_callback_def setupListeners_def new_EventSource_def on_def close_def es_close_def
  setMaxReconnectAttempts_def setReconnectDelay_def
  on_stream_event_def on_batch_created_def on_message_def

lemma listeners_step:
  assumes "wired s"
  shows "listeners (step parse s ev) =
           (case ev of CallOn c l \<Rightarrow> listeners s @ [(c, l)] | _ \<Rightarrow> listeners s)"
  using assms
  by (cases ev) (simp_all add: dispatch_frame_wired handler_cases split: sum.splits)





lemma backoff_step:
  assumes "wired s" and "ev \<noteq> TransportOpen" and "\<forall>d. ev \<noteq> CallSetReconnectDelay d"
    and "reconnectAttempts s = int (length (timeouts (trace s)))"
    and "timeouts (trace s) = map (\<lambda>i. min (1000 * 2 ^ i) 30000) [0..<length (timeouts (trace s))]"
    and "reconnectDelay s = min (1000 * 2 ^ length (timeouts (trace s))) 30000"
  shows "reconnectAttempts (step parse s ev) = int (length (timeouts (trace (step parse s ev))))
       \<and> timeouts (trace (step parse s ev)) =
           map (\<lambda>i. min (1000 * 2 ^ i) 30000) [0..<length (timeouts (trace (step parse s ev)))]
       \<and> reconnectDelay (step parse s ev) =
           min (1000 * 2 ^ length (timeouts (trace (step parse s ev)))) 30000"
proof (cases ev)
  case (TransportError rs e)
  have dbl: "min (min (1000 * 2 ^ n) 30000 * 2) 30000 = min (1000 * 2 ^ Suc n) (30000 :: int)" for n :: nat
    by (simp add: min_def)
  from assms(1,4,5,6) show ?thesis
    unfolding TransportError
    by (simp add: wired_def handler_cases emit_trace dbl)
qed (use assms in \<open>simp_all add: dispatch_frame_wired handler_cases emit_trace split: sum.splits\<close>)

subsection \<open>Runs\<close>

lemma listeners_run:
  assumes "wired s" and "\<forall>ev\<in>set evs. \<forall>c l. ev \<noteq> CallOn c l"
  shows "listeners (run parse s evs) = listeners s"
  using assms
proof (induction evs arbitrary: s)
  case Nil
  then show ?case by simp
next
  case (Cons ev evs)
  from Cons.prems(1) have "listeners (step parse s ev) =
      (case ev of CallOn c l \<Rightarrow> listeners s @ [(c, l)] | _ \<Rightarrow> listeners s)"
    by (rule listeners_step)
  moreover from Cons.prems(2) have "\<forall>c l. ev \<noteq> CallOn c l"
    by simp
  ultimately have "listeners (step parse s ev) = listeners s"
    by (simp del: step.simps split: event.splits)
  moreover from Cons.prems have "listeners (run parse (step parse s ev) evs) = listeners (step parse s ev)"
    by (intro Cons.IH wired_step) simp_all
  ultimately show ?case by simp
qed



lemma listeners_of_snoc [simp]:
  "listeners_of (ls @ [(c, l)]) cat = (if c = cat then listeners_of ls cat @ [l] else listeners_of ls cat)"
  by (simp add: listeners_of_def)

lemma count_listeners_of: "(cat, l) \<notin> set ls \<Longrightarrow> count_list (listeners_of ls cat) l = 0"
  by (induction ls) (auto simp add: listeners_of_def)

subsection \<open>The connection of the examples\<close>

lemma example_parse_simps [simp]:
  "example_parse ''42'' = Inr 42"
  "example_parse ''{'' = Inl ''SyntaxError''"
  by (simp_all add: example_parse_def)

lemma construct_example:
  "(construct example_url None :: nat conn) =
     \<lparr>eventSource =
        \<lparr>t_url = ''https://host/sse/streams/stream_1'', readyState = CONNECTING,
         onopen = True, onerror = True,
         wire_listeners =
           [(''stream_event'', StreamEventListener),
            (''batch_created'', BatchCreatedListener),
            (''message'', MessageListener)]\<rparr>,
      reconnectAttempts = 0, maxReconnectAttempts = 5, reconnectDelay = 1000,
      isReconnecting = False, listeners = [], timers = [],
      trace = [Opened ''https://host/sse/streams/stream_1'']\<rparr>"
  by (simp add: construct_def example_url_def url_toString_def setupListeners_def
      new_EventSource_def Let_def)

section \<open>Closing\<close>

text \<open>
  C10. Every call of \<open>close()\<close> emits one \<open>close\<close> event, whatever the state of the
  connection: after one call the trace holds one more \<open>close\<close> event than before, and
  after two calls in succession it holds two more, so the second call is not a no-op.
\<close>

theorem close_emits_one_close_event_each_call:
  "length (emitted ''close'' (trace (close s))) = length (emitted ''close'' (trace s)) + 1
   \<and> length (emitted ''close'' (trace (close (close s)))) = length (emitted ''close'' (trace s)) + 2"
  by (simp add: close_def emit_def Let_def)

section \<open>Frames\<close>

text \<open>
  C6 fails on the code where no \<open>error\<close> listener is registered. On the connection as
  constructed, a \<open>stream_event\<close> frame that \<open>JSON.parse\<close> rejects is passed to \<open>emit\<close> under
  \<open>error\<close>, nothing is emitted under \<open>stream_event\<close>, and \<open>emit\<close>, finding no listener,
  throws the error out of the frame handler.
\<close>

theorem malformed_frame_without_error_listener_throws:
  "trace (step example_parse (construct example_url None) (TransportFrame ''stream_event'' ''{'')) =
     [Opened ''https://host/sse/streams/stream_1'',
      Emitted ''error'' (LocalError ''Failed to parse stream_event: SyntaxError''),
      Thrown (LocalError ''Failed to parse stream_event: SyntaxError'')]
   \<and> thrown (trace (step example_parse (construct example_url None)
        (TransportFrame ''stream_event'' ''{''))) = 1"
  by code_simp

text \<open>
  C6, as the code has it. A frame of category \<open>stream_event\<close> or \<open>batch_created\<close> whose
  data \<open>JSON.parse\<close> rejects has exactly one effect: one \<open>emit\<close> of an \<open>error\<close> event whose
  message names the category and carries the text of the parse failure. Nothing is
  emitted under the frame's own category, and every field of the connection is as
  before, so the subscription goes on as if the frame had not come. With an \<open>error\<close>
  listener registered no exception leaves the handler; with none registered, one does.
\<close>

theorem malformed_named_frame_is_reported:
  assumes "wired s" and "cat = ''stream_event'' \<or> cat = ''batch_created''"
    and "parse data = Inl err"
  shows "step parse s (TransportFrame cat data) =
           snd (emit s ''error'' (LocalError (''Failed to parse '' @ cat @ '': '' @ err)))
       \<and> emitted ''error'' (trace (step parse s (TransportFrame cat data))) =
           emitted ''error'' (trace s) @ [LocalError (''Failed to parse '' @ cat @ '': '' @ err)]
       \<and> emitted cat (trace (step parse s (TransportFrame cat data))) = emitted cat (trace s)
       \<and> (step parse s (TransportFrame cat data))\<lparr>trace := trace s\<rparr> = s
       \<and> (listeners_of (listeners s) ''error'' \<noteq> [] \<longrightarrow>
            thrown (trace (step parse s (TransportFrame cat data))) = thrown (trace s))
       \<and> (listeners_of (listeners s) ''error'' = [] \<longrightarrow>
            thrown (trace (step parse s (TransportFrame cat data))) = thrown (trace s) + 1)"
  using assms
  by (auto simp add: dispatch_frame_wired on_stream_event_def on_batch_created_def
      emit_trace emit_restore)

theorem malformed_named_frame_is_reported_witness:
  "wired (on (construct example_url None) ''error'' 0 :: nat conn)
   \<and> example_parse ''{'' = Inl ''SyntaxError''
   \<and> listeners_of (listeners (on (construct example_url None) ''error'' 0 :: nat conn)) ''error'' \<noteq> []
   \<and> emitted ''error'' (trace (step example_parse (on (construct example_url None) ''error'' 0)
         (TransportFrame ''stream_event'' ''{''))) =
       [LocalError ''Failed to parse stream_event: SyntaxError'']
   \<and> emitted ''stream_event'' (trace (step example_parse (on (construct example_url None) ''error'' 0)
         (TransportFrame ''stream_event'' ''{''))) = []
   \<and> thrown (trace (step example_parse (on (construct example_url None) ''error'' 0)
         (TransportFrame ''stream_event'' ''{''))) = 0
   \<and> listeners_of (listeners (construct example_url None :: nat conn)) ''error'' = []
   \<and> thrown (trace (step example_parse (construct example_url None)
         (TransportFrame ''batch_created'' ''{''))) = 1"
proof -
  let ?s = "on (construct example_url None) ''error'' 0 :: nat conn"
  let ?t = "construct example_url None :: nat conn"
  have w: "wired ?s"
    by (simp add: wired_def on_def construct_example)
  have w0: "wired ?t"
    by (rule wired_construct)
  have p: "example_parse ''{'' = Inl ''SyntaxError''"
    by simp
  have l: "listeners_of (listeners ?s) ''error'' \<noteq> []"
    by (simp add: listeners_of_def on_def construct_example)
  have l0: "listeners_of (listeners ?t) ''error'' = []"
    by (simp add: listeners_of_def construct_example)
  have c: "''stream_event'' = ''stream_event'' \<or> ''stream_event'' = ''batch_created''"
    by simp
  have c0: "''batch_created'' = ''stream_event'' \<or> ''batch_created'' = ''batch_created''"
    by simp
  from malformed_named_frame_is_reported
         [of ?s "''stream_event''" example_parse "''{''" "''SyntaxError''"] w c p l
  have "emitted ''error'' (trace (step example_parse ?s (TransportFrame ''stream_event'' ''{''))) =
          emitted ''error'' (trace ?s) @
            [LocalError (''Failed to parse '' @ ''stream_event'' @ '': '' @ ''SyntaxError'')]
      \<and> emitted ''stream_event'' (trace (step example_parse ?s (TransportFrame ''stream_event'' ''{''))) =
          emitted ''stream_event'' (trace ?s)
      \<and> thrown (trace (step example_parse ?s (TransportFrame ''stream_event'' ''{''))) =
          thrown (trace ?s)"
    by blast
  moreover from malformed_named_frame_is_reported
         [of ?t "''batch_created''" example_parse "''{''" "''SyntaxError''"] w0 c0 p l0
  have "thrown (trace (step example_parse ?t (TransportFrame ''batch_created'' ''{''))) =
          thrown (trace ?t) + 1"
    by blast
  moreover have "trace ?s = [Opened ''https://host/sse/streams/stream_1'']"
    by (simp add: on_def construct_example)
  moreover have "trace ?t = [Opened ''https://host/sse/streams/stream_1'']"
    by (simp add: construct_example)
  ultimately show ?thesis
    using w p l l0 by (simp del: step.simps)
qed

text \<open>
  C8. A frame of the unlabelled category \<open>message\<close> has exactly one effect: one \<open>emit\<close>
  of a \<open>message\<close> event, with the parsed value when \<open>JSON.parse\<close> accepts the data and
  with the raw text when it does not. No \<open>error\<close> event is emitted and nothing is thrown.
\<close>

theorem message_frame_parsed_or_raw:
  assumes "wired s"
  shows "step parse s (TransportFrame ''message'' data) =
           snd (emit s ''message'' (case parse data of Inr v \<Rightarrow> Parsed v | Inl err \<Rightarrow> Raw data))
       \<and> emitted ''message'' (trace (step parse s (TransportFrame ''message'' data))) =
           emitted ''message'' (trace s) @
             [case parse data of Inr v \<Rightarrow> Parsed v | Inl err \<Rightarrow> Raw data]
       \<and> emitted ''error'' (trace (step parse s (TransportFrame ''message'' data))) =
           emitted ''error'' (trace s)
       \<and> thrown (trace (step parse s (TransportFrame ''message'' data))) = thrown (trace s)"
  using assms
  by (auto simp add: dispatch_frame_wired on_message_def emit_trace split: sum.splits)

theorem message_frame_parsed_or_raw_witness:
  "wired (construct example_url None :: nat conn)
   \<and> emitted ''message'' (trace (step example_parse (construct example_url None)
         (TransportFrame ''message'' ''42''))) = [Parsed 42]
   \<and> emitted ''message'' (trace (step example_parse (construct example_url None)
         (TransportFrame ''message'' ''{''))) = [Raw ''{'']
   \<and> emitted ''error'' (trace (step example_parse (construct example_url None)
         (TransportFrame ''message'' ''{''))) = []"
proof -
  let ?s = "construct example_url None :: nat conn"
  have w: "wired ?s"
    by (rule wired_construct)
  from message_frame_parsed_or_raw [of ?s example_parse "''42''"] w
  have a: "emitted ''message'' (trace (step example_parse ?s (TransportFrame ''message'' ''42''))) =
             emitted ''message'' (trace ?s) @
               [case example_parse ''42'' of Inr v \<Rightarrow> Parsed v | Inl err \<Rightarrow> Raw ''42'']"
    by blast
  from message_frame_parsed_or_raw [of ?s example_parse "''{''"] w
  have b: "emitted ''message'' (trace (step example_parse ?s (TransportFrame ''message'' ''{''))) =
             emitted ''message'' (trace ?s) @
               [case example_parse ''{'' of Inr v \<Rightarrow> Parsed v | Inl err \<Rightarrow> Raw ''{'']
         \<and> emitted ''error'' (trace (step example_parse ?s (TransportFrame ''message'' ''{''))) =
             emitted ''error'' (trace ?s)"
    by blast
  have t: "trace ?s = [Opened ''https://host/sse/streams/stream_1'']"
    by (simp add: construct_example)
  from w a b t show ?thesis
    by (simp del: step.simps)
qed

section \<open>Transport errors\<close>

text \<open>
  C7. On every error callback of the transport the event is passed to \<open>emit\<close> under
  \<open>error\<close> first. When the ready state the transport reports is not \<open>CLOSED\<close>, that is
  all: no timer is set, no transport is opened, and the attempt counter and the
  reconnecting flag are as before. So a timer is set only when the state is \<open>CLOSED\<close>.
\<close>

theorem reconnection_only_on_definitive_closure:
  assumes "wired s"
  shows "take (Suc (length (emitted ''error'' (trace s))))
              (emitted ''error'' (trace (step parse s (TransportError rs e)))) =
           emitted ''error'' (trace s) @ [TransportEvent e]
       \<and> (rs \<noteq> CLOSED \<longrightarrow>
            timers (step parse s (TransportError rs e)) = timers s
          \<and> timeouts (trace (step parse s (TransportError rs e))) = timeouts (trace s)
          \<and> opened (trace (step parse s (TransportError rs e))) = opened (trace s)
          \<and> reconnectAttempts (step parse s (TransportError rs e)) = reconnectAttempts s
          \<and> isReconnecting (step parse s (TransportError rs e)) = isReconnecting s
          \<and> emitted ''error'' (trace (step parse s (TransportError rs e))) =
              emitted ''error'' (trace s) @ [TransportEvent e])
       \<and> (timers (step parse s (TransportError rs e)) \<noteq> timers s \<longrightarrow> rs = CLOSED)"
proof -
  let ?s1 = "s\<lparr>eventSource := (eventSource s)\<lparr>readyState := rs\<rparr>\<rparr>"
  have st: "step parse s (TransportError rs e) = onerror_handler ?s1 e"
    using assms by (simp add: wired_def)
  show ?thesis
    unfolding st onerror_handler_cases
    by (simp add: handleReconnection_cases emit_trace)
qed

theorem reconnection_only_on_definitive_closure_witness:
  "wired (on (construct example_url None) ''error'' 0 :: nat conn)
   \<and> CONNECTING \<noteq> CLOSED
   \<and> timers (step example_parse (on (construct example_url None) ''error'' 0)
        (TransportError CONNECTING 7)) = []
   \<and> emitted ''error'' (trace (step example_parse (on (construct example_url None) ''error'' 0)
        (TransportError CONNECTING 7))) = [TransportEvent 7]
   \<and> timers (step example_parse (on (construct example_url None) ''error'' 0)
        (TransportError CLOSED 7)) = [1000]"
proof -
  let ?s = "on (construct example_url None) ''error'' 0 :: nat conn"
  have w: "wired ?s"
    by (simp add: wired_def on_def construct_example)
  have n: "CONNECTING \<noteq> CLOSED"
    by simp
  from reconnection_only_on_definitive_closure [OF w, of example_parse CONNECTING 7] n
  have a: "timers (step example_parse ?s (TransportError CONNECTING 7)) = timers ?s
         \<and> emitted ''error'' (trace (step example_parse ?s (TransportError CONNECTING 7))) =
             emitted ''error'' (trace ?s) @ [TransportEvent 7]"
    by blast
  have b: "timers (step example_parse ?s (TransportError CLOSED 7)) = [1000]"
    by (simp add: on_def construct_example onerror_handler_cases handleReconnection_cases
        listeners_of_def Let_def)
  have t: "timers ?s = [] \<and> trace ?s = [Opened ''https://host/sse/streams/stream_1'']"
    by (simp add: on_def construct_example)
  from w n a b t show ?thesis
    by (simp del: step.simps)
qed

section \<open>The url\<close>

lemma serialize_params_snoc:
  "serialize_params (ps @ [(k, v)]) =
     (if ps = [] then [] else serialize_params ps @ ''&'') @ urlencode k @ ''='' @ urlencode v"
  by (induction ps rule: serialize_params.induct) simp_all

lemma urlencode_api_key: "urlencode ''api_key'' = ''api_key''"
  by (simp add: urlencode_def encode_byte_def unreserved_def)

lemma eventSource_dispatch_frame [simp]:
  "eventSource (dispatch_frame parse s cat data) = eventSource s"
proof -
  have "eventSource (fold (\<lambda>r s'. if fst r = cat then run_wire_listener parse (snd r) s' data else s') ws s)
          = eventSource s" for ws
  proof (induction ws arbitrary: s)
    case Nil
    show ?case by simp
  next
    case (Cons w ws)
    have "eventSource (run_wire_listener parse (snd w) s data) = eventSource s"
      by (cases "snd w")
         (simp_all add: on_stream_event_def on_batch_created_def on_message_def split: sum.splits)
    with Cons show ?case by simp
  qed
  then show ?thesis by (simp add: dispatch_frame_def)
qed

lemma get_url_step: "get_url (step parse s ev) = get_url s"
  by (cases ev)
     (simp_all add: get_url_def Let_def onopen_handler_eq onerror_handler_cases
        handleReconnection_cases reconnect_callback_def setupListeners_def new_EventSource_def
        on_def close_def es_close_def setMaxReconnectAttempts_def setReconnectDelay_def)

lemma get_url_run: "get_url (run parse s evs) = get_url s"
  by (induction evs arbitrary: s) (simp_all add: get_url_step)

text \<open>
  C9, as the code has it. The constructor tests the credential for truthiness, so the
  empty string counts as no credential. For a non-empty credential \<open>k\<close> the url of the
  transport is the url given with the pair \<open>api_key\<close>, \<open>k\<close> appended to its query, in
  form-urlencoded spelling and after the parameters already there; with no credential,
  or the empty one, it is the url given. The accessor returns that url for the whole
  life of the connection.
\<close>

theorem credential_appended_as_api_key:
  "(k \<noteq> [] \<longrightarrow>
      get_url (construct u (Some k)) = url_toString (searchParams_append u ''api_key'' k)
    \<and> get_url (construct u (Some k)) =
        u_base u @ ''?'' @ (if u_params u = [] then [] else serialize_params (u_params u) @ ''&'')
          @ ''api_key='' @ urlencode k @ u_hash u)
   \<and> get_url (construct u None) = url_toString u
   \<and> get_url (construct u (Some [])) = url_toString u
   \<and> get_url (run parse (construct u apiKey) evs) = get_url (construct u apiKey)"
  by (simp add: get_url_run)
     (simp add: get_url_def construct_def setupListeners_def new_EventSource_def Let_def
        url_toString_def searchParams_append_def serialize_params_snoc urlencode_api_key)

theorem credential_appended_as_api_key_witness:
  "''k1'' \<noteq> [] \<and>
   get_url (construct example_url (Some ''k1'') :: nat conn) =
     ''https://host/sse/streams/stream_1?api_key=k1''"
proof -
  have k: "''k1'' \<noteq> []"
    by simp
  from credential_appended_as_api_key [of "''k1''" example_url example_parse None "[]"] k
  have "get_url (construct example_url (Some ''k1'') :: nat conn) =
          u_base example_url @ ''?'' @
            (if u_params example_url = [] then [] else serialize_params (u_params example_url) @ ''&'')
            @ ''api_key='' @ urlencode ''k1'' @ u_hash example_url"
    by blast
  then show ?thesis
    by (simp add: example_url_def urlencode_def encode_byte_def unreserved_def)
qed

theorem empty_credential_is_not_appended:
  "get_url (construct example_url (Some []) :: nat conn) = ''https://host/sse/streams/stream_1''
   \<and> url_toString (searchParams_append example_url ''api_key'' []) =
       ''https://host/sse/streams/stream_1?api_key=''
   \<and> get_url (construct example_url (Some []) :: nat conn) \<noteq>
       url_toString (searchParams_append example_url ''api_key'' [])"
  by (simp add: get_url_def construct_def setupListeners_def new_EventSource_def Let_def
      url_toString_def searchParams_append_def example_url_def urlencode_def encode_byte_def
      unreserved_def)

section \<open>Opening\<close>

text \<open>
  C3, at the input where the code leaves it. The caller sets the delay to 500 ms with
  \<open>setReconnectDelay\<close> and the transport then opens: the attempt counter is 0, and the
  delay is 1000 ms, the constant of \<open>onopen\<close>, not the 500 ms that were set.
\<close>

theorem open_resets_delay_to_1000:
  "reconnectAttempts (run parse (construct u apiKey) [CallSetReconnectDelay 500, TransportOpen]) = 0
   \<and> reconnectDelay (run parse (construct u apiKey) [CallSetReconnectDelay 500]) = 500
   \<and> reconnectDelay (run parse (construct u apiKey) [CallSetReconnectDelay 500, TransportOpen]) = 1000"
  by (simp add: construct_def setupListeners_def new_EventSource_def Let_def
      setReconnectDelay_def onopen_handler_eq)

section \<open>Backoff\<close>

lemma backoff_run:
  assumes "wired s" and "\<forall>ev\<in>set evs. ev \<noteq> TransportOpen \<and> (\<forall>d. ev \<noteq> CallSetReconnectDelay d)"
    and "reconnectAttempts s = int (length (timeouts (trace s)))"
    and "timeouts (trace s) = map (\<lambda>i. min (1000 * 2 ^ i) 30000) [0..<length (timeouts (trace s))]"
    and "reconnectDelay s = min (1000 * 2 ^ length (timeouts (trace s))) 30000"
  shows "reconnectAttempts (run parse s evs) = int (length (timeouts (trace (run parse s evs))))
       \<and> timeouts (trace (run parse s evs)) =
           map (\<lambda>i. min (1000 * 2 ^ i) 30000) [0..<length (timeouts (trace (run parse s evs)))]
       \<and> reconnectDelay (run parse s evs) =
           min (1000 * 2 ^ length (timeouts (trace (run parse s evs)))) 30000"
  using assms
proof (induction evs arbitrary: s)
  case Nil
  then show ?case by simp
next
  case (Cons ev evs)
  have w: "wired (step parse s ev)"
    using Cons.prems(1) by (rule wired_step)
  have b: "reconnectAttempts (step parse s ev) = int (length (timeouts (trace (step parse s ev))))
       \<and> timeouts (trace (step parse s ev)) =
           map (\<lambda>i. min (1000 * 2 ^ i) 30000) [0..<length (timeouts (trace (step parse s ev)))]
       \<and> reconnectDelay (step parse s ev) =
           min (1000 * 2 ^ length (timeouts (trace (step parse s ev)))) 30000"
    using Cons.prems by (intro backoff_step) simp_all
  have r: "\<forall>ev\<in>set evs. ev \<noteq> TransportOpen \<and> (\<forall>d. ev \<noteq> CallSetReconnectDelay d)"
    using Cons.prems(2) by simp
  from Cons.IH [OF w r] b show ?case
    by simp
qed

text \<open>
  C4. Take a connection as the constructor leaves it (delay 1000 ms) and let anything
  happen to it except an open notification and a call of \<open>setReconnectDelay\<close>. Then
  the attempt counter is the number of timers set so far, the timer of attempt \<open>k\<close>
  (the \<open>k\<close>-th timer set, \<open>k \<ge> 1\<close>) was set with the delay
  \<open>min (1000 * 2^(k-1)) 30000\<close>, and the delay kept for the next attempt is the double of
  the last one, capped at 30000 ms.
\<close>

theorem backoff_delay_of_attempt:
  assumes "\<forall>ev\<in>set evs. ev \<noteq> TransportOpen \<and> (\<forall>d. ev \<noteq> CallSetReconnectDelay d)"
  shows "reconnectAttempts (run parse (construct u apiKey) evs) =
           int (length (timeouts (trace (run parse (construct u apiKey) evs))))
       \<and> (\<forall>k. 1 \<le> k \<and> k \<le> length (timeouts (trace (run parse (construct u apiKey) evs))) \<longrightarrow>
            timeouts (trace (run parse (construct u apiKey) evs)) ! (k - 1) =
              min (1000 * 2 ^ (k - 1)) 30000)
       \<and> reconnectDelay (run parse (construct u apiKey) evs) =
           min (1000 * 2 ^ length (timeouts (trace (run parse (construct u apiKey) evs)))) 30000"
proof -
  let ?s = "construct u apiKey :: 'a conn"
  let ?T = "timeouts (trace (run parse ?s evs))"
  have i: "reconnectAttempts ?s = int (length (timeouts (trace ?s)))
         \<and> timeouts (trace ?s) = map (\<lambda>i. min (1000 * 2 ^ i) 30000) [0..<length (timeouts (trace ?s))]
         \<and> reconnectDelay ?s = min (1000 * 2 ^ length (timeouts (trace ?s))) 30000"
    by (simp add: construct_def setupListeners_def Let_def)
  have b: "reconnectAttempts (run parse ?s evs) = int (length ?T)
       \<and> ?T = map (\<lambda>i. min (1000 * 2 ^ i) 30000) [0..<length ?T]
       \<and> reconnectDelay (run parse ?s evs) = min (1000 * 2 ^ length ?T) 30000"
    using wired_construct assms i by (intro backoff_run) simp_all
  have n: "?T ! (k - 1) = min (1000 * 2 ^ (k - 1)) 30000" if "1 \<le> k" and "k \<le> length ?T" for k
  proof -
    from that have lt: "k - 1 < length ?T"
      by simp
    from b have "?T ! (k - 1) = map (\<lambda>i. min (1000 * 2 ^ i) 30000) [0..<length ?T] ! (k - 1)"
      by simp
    also from lt have "\<dots> = min (1000 * 2 ^ (k - 1)) 30000"
      by simp
    finally show ?thesis .
  qed
  from b n show ?thesis
    by blast
qed

theorem backoff_delay_of_attempt_witness:
  "length (timeouts (trace (run example_parse (construct example_url None)
      ([CallOn ''error'' 0, CallSetMaxReconnectAttempts 10] @ closure_rounds [1, 2, 3, 4, 5, 6])))) = 6
   \<and> timeouts (trace (run example_parse (construct example_url None)
      ([CallOn ''error'' 0, CallSetMaxReconnectAttempts 10] @ closure_rounds [1, 2, 3, 4, 5, 6]))) ! (2 - 1) = 2000
   \<and> timeouts (trace (run example_parse (construct example_url None)
      ([CallOn ''error'' 0, CallSetMaxReconnectAttempts 10] @ closure_rounds [1, 2, 3, 4, 5, 6]))) ! (6 - 1) = 30000
   \<and> reconnectAttempts (run example_parse (construct example_url None)
      ([CallOn ''error'' 0, CallSetMaxReconnectAttempts 10] @ closure_rounds [1, 2, 3, 4, 5, 6])) = 6"
proof -
  let ?evs = "[CallOn ''error'' 0, CallSetMaxReconnectAttempts 10] @ closure_rounds [1, 2, 3, 4, 5, 6]"
  let ?T = "timeouts (trace (run example_parse (construct example_url None :: nat conn) ?evs))"
  have h: "\<forall>ev\<in>set ?evs. ev \<noteq> TransportOpen \<and> (\<forall>d. ev \<noteq> CallSetReconnectDelay d)"
    by (simp add: closure_rounds_def)
  have n: "length ?T = 6"
    by code_simp
  note b = backoff_delay_of_attempt [OF h, of example_parse example_url None]
  from b have a: "reconnectAttempts (run example_parse (construct example_url None :: nat conn) ?evs) =
      int (length ?T)"
    by blast
  from b have k: "1 \<le> k \<and> k \<le> length ?T \<longrightarrow> ?T ! (k - 1) = min (1000 * 2 ^ (k - 1)) 30000" for k
    by blast
  from k [of 2] n have k2: "?T ! (2 - 1) = 2000"
    by simp
  from k [of 6] n have k6: "?T ! (6 - 1) = 30000"
    by simp
  from n a k2 k6 show ?thesis
    by simp
qed

section \<open>Listeners across reconnection\<close>

text \<open>
  C5. The caller's listeners live in the connection, not in the transport, and only
  \<open>on\<close> changes them. Register a listener \<open>l\<close> for \<open>stream_event\<close> or \<open>batch_created\<close>,
  then let anything happen except further registrations: errors, timers firing and
  replacing the transport, opens, frames. The registrations are then the old ones
  followed by \<open>l\<close>, and a frame of that category with valid data, delivered on the
  transport current by then, is emitted once, with the parsed value, to the listeners
  of the category in registration order. A listener not registered for the category
  before is called exactly once, with the parsed value.
\<close>

theorem listeners_stable_across_reconnection:
  assumes "wired s" and "\<forall>ev\<in>set evs. \<forall>c l'. ev \<noteq> CallOn c l'"
    and "cat = ''stream_event'' \<or> cat = ''batch_created''" and "parse data = Inr v"
  shows "listeners (run parse (on s cat l) evs) = listeners s @ [(cat, l)]
       \<and> trace (step parse (run parse (on s cat l) evs) (TransportFrame cat data)) =
           trace (run parse (on s cat l) evs) @
             Emitted cat (Parsed v) #
               map (\<lambda>l'. Called l' (Parsed v)) (listeners_of (listeners s) cat @ [l])
       \<and> ((cat, l) \<notin> set (listeners s) \<longrightarrow>
            calls l (drop (length (trace (run parse (on s cat l) evs)))
                      (trace (step parse (run parse (on s cat l) evs) (TransportFrame cat data)))) =
              [Parsed v])"
proof -
  let ?s' = "run parse (on s cat l) evs"
  have w0: "wired (on s cat l)"
    using assms(1) by (simp add: wired_def on_def)
  have w: "wired ?s'"
    using w0 by (rule wired_run)
  have ls: "listeners ?s' = listeners s @ [(cat, l)]"
    using listeners_run [OF w0 assms(2), of parse] by (simp add: on_def)
  have fr: "step parse ?s' (TransportFrame cat data) = snd (emit ?s' cat (Parsed v))"
    using w assms(3,4)
    by (auto simp add: dispatch_frame_wired on_stream_event_def on_batch_created_def)
  have ne: "cat \<noteq> ''error''"
    using assms(3) by auto
  have tr: "trace (step parse ?s' (TransportFrame cat data)) =
      trace ?s' @ Emitted cat (Parsed v) #
        map (\<lambda>l'. Called l' (Parsed v)) (listeners_of (listeners s) cat @ [l])"
    unfolding fr using ne by (simp add: emit_trace ls)
  have once: "calls l (drop (length (trace ?s')) (trace (step parse ?s' (TransportFrame cat data)))) =
      [Parsed v]" if "(cat, l) \<notin> set (listeners s)"
    unfolding tr using count_listeners_of [OF that] by simp
  from ls tr once show ?thesis
    by blast
qed

theorem listeners_stable_across_reconnection_witness:
  "opened (trace (run example_parse (on (on (construct example_url None) ''error'' 0) ''stream_event'' 3)
      [TransportError CLOSED 7, TimerFired 0, TransportOpen])) = 2
   \<and> listeners (run example_parse (on (on (construct example_url None) ''error'' 0) ''stream_event'' 3)
      [TransportError CLOSED 7, TimerFired 0, TransportOpen]) = [(''error'', 0), (''stream_event'', 3)]
   \<and> calls 3 (drop (length (trace (run example_parse
          (on (on (construct example_url None) ''error'' 0) ''stream_event'' 3)
          [TransportError CLOSED 7, TimerFired 0, TransportOpen])))
        (trace (step example_parse (run example_parse
          (on (on (construct example_url None) ''error'' 0) ''stream_event'' 3)
          [TransportError CLOSED 7, TimerFired 0, TransportOpen])
          (TransportFrame ''stream_event'' ''42'')))) = [Parsed 42]"
proof -
  let ?s = "on (construct example_url None) ''error'' 0 :: nat conn"
  let ?evs = "[TransportError CLOSED 7, TimerFired 0, TransportOpen]"
  have w: "wired ?s"
    by (simp add: wired_def on_def construct_example)
  have h: "\<forall>ev\<in>set ?evs. \<forall>c l'. ev \<noteq> CallOn c l'"
    by simp
  have c: "''stream_event'' = ''stream_event'' \<or> ''stream_event'' = ''batch_created''"
    by simp
  have p: "example_parse ''42'' = Inr 42"
    by simp
  have n: "(''stream_event'', 3) \<notin> set (listeners ?s)"
    by (simp add: on_def construct_example)
  have l: "listeners ?s = [(''error'', 0)]"
    by (simp add: on_def construct_example)
  have o: "opened (trace (run example_parse (on ?s ''stream_event'' 3) ?evs)) = 2"
    by code_simp
  note t = listeners_stable_across_reconnection
      [of ?s ?evs "''stream_event''" example_parse "''42''" 42 3, OF w h c p]
  from t l have "listeners (run example_parse (on ?s ''stream_event'' 3) ?evs) =
      [(''error'', 0), (''stream_event'', 3)]"
    by simp
  moreover from t n have "calls 3 (drop (length (trace (run example_parse (on ?s ''stream_event'' 3) ?evs)))
      (trace (step example_parse (run example_parse (on ?s ''stream_event'' 3) ?evs)
         (TransportFrame ''stream_event'' ''42'')))) = [Parsed 42]"
    by blast
  ultimately show ?thesis
    using o by blast
qed

section \<open>What \<open>close()\<close> ends and what it does not\<close>


lemma close_fields [simp]:
  "wired (close s) = wired s"
  "timers (close s) = timers s"
  "isReconnecting (close s) = isReconnecting s"
  "opened (trace (close s)) = opened (trace s)"
  "readyState (eventSource (close s)) = CLOSED"
  "emitted ''close'' (trace (close s)) = emitted ''close'' (trace s) @ [NoPayload]"
  by (simp_all add: close_def es_close_def wired_def emit_trace)

lemma handleReconnection_quiet [simp]:
  "opened (trace (handleReconnection s)) = opened (trace s)"
  "emitted ''close'' (trace (handleReconnection s)) = emitted ''close'' (trace s)"
  by (simp_all add: handleReconnection_cases emit_trace)



text \<open>
  How a reconnection follows a \<open>close()\<close> that an \<open>error\<close> listener makes. The error
  callback reads the ready state after the listeners have run. It finds \<open>CLOSED\<close>, by the
  listener's \<open>close()\<close>, whatever the transport had reported, and with no reconnection
  under way it enters \<open>handleReconnection\<close> in the state \<open>close()\<close> left: below the maximum
  a timer is set, after the \<open>close\<close> event and with no timer pending before.
\<close>

lemma close_in_error_listener_is_followed_by_timer:
  assumes "reconnectAttempts s < maxReconnectAttempts s"
  shows "readyState (eventSource (close s)) = CLOSED
       \<and> isReconnecting (close s) = isReconnecting s
       \<and> timers (handleReconnection (close s)) = timers s @ [reconnectDelay s]
       \<and> timeouts (trace (handleReconnection (close s))) = timeouts (trace s) @ [reconnectDelay s]"
  using assms
  by (simp add: handleReconnection_cases) (simp add: close_def emit_trace)

section \<open>The reconnection budget\<close>

text \<open>
  C2 fails on the code in its last part. With the default maximum of 5 and an \<open>error\<close>
  listener registered, five closures are each followed by a reconnection. The sixth
  closure finds the counter at 5 and emits the terminal error; the seventh emits it
  again: the terminal error has been emitted twice, and no timer was set after the
  fifth.
\<close>

theorem terminal_error_repeats_on_further_closures:
  "reconnectAttempts (run example_parse (construct example_url None)
      (CallOn ''error'' 0 # closure_rounds [1, 2, 3, 4, 5])) = 5
   \<and> terminal_errors (trace (run example_parse (construct example_url None)
      (CallOn ''error'' 0 # closure_rounds [1, 2, 3, 4, 5] @ [TransportError CLOSED 6]))) = 1
   \<and> terminal_errors (trace (run example_parse (construct example_url None)
      (CallOn ''error'' 0 # closure_rounds [1, 2, 3, 4, 5] @
         [TransportError CLOSED 6, TransportError CLOSED 7]))) = 2
   \<and> timeouts (trace (run example_parse (construct example_url None)
      (CallOn ''error'' 0 # closure_rounds [1, 2, 3, 4, 5] @
         [TransportError CLOSED 6, TransportError CLOSED 7]))) = [1000, 2000, 4000, 8000, 16000]"
  by code_simp

lemma closure_round:
  assumes "wired s" and "listeners_of (listeners s) ''error'' \<noteq> []"
    and "\<not> isReconnecting s" and "timers s = []"
  shows "wired (run parse s [TransportError CLOSED e, TimerFired 0])
       \<and> listeners (run parse s [TransportError CLOSED e, TimerFired 0]) = listeners s
       \<and> \<not> isReconnecting (run parse s [TransportError CLOSED e, TimerFired 0])
       \<and> timers (run parse s [TransportError CLOSED e, TimerFired 0]) = []
       \<and> maxReconnectAttempts (run parse s [TransportError CLOSED e, TimerFired 0]) =
           maxReconnectAttempts s
       \<and> (if reconnectAttempts s < maxReconnectAttempts s
          then reconnectAttempts (run parse s [TransportError CLOSED e, TimerFired 0]) =
                 reconnectAttempts s + 1
             \<and> timeouts (trace (run parse s [TransportError CLOSED e, TimerFired 0])) =
                 timeouts (trace s) @ [reconnectDelay s]
             \<and> opened (trace (run parse s [TransportError CLOSED e, TimerFired 0])) =
                 opened (trace s) + 1
             \<and> terminal_errors (trace (run parse s [TransportError CLOSED e, TimerFired 0])) =
                 terminal_errors (trace s)
          else reconnectAttempts (run parse s [TransportError CLOSED e, TimerFired 0]) =
                 reconnectAttempts s
             \<and> timeouts (trace (run parse s [TransportError CLOSED e, TimerFired 0])) =
                 timeouts (trace s)
             \<and> opened (trace (run parse s [TransportError CLOSED e, TimerFired 0])) =
                 opened (trace s)
             \<and> terminal_errors (trace (run parse s [TransportError CLOSED e, TimerFired 0])) =
                 terminal_errors (trace s) + 1)"
proof (cases "reconnectAttempts s < maxReconnectAttempts s")
  case True
  with assms show ?thesis
    by (simp add: wired_def handler_cases emit_trace)
next
  case False
  with assms show ?thesis
    by (simp add: wired_def handler_cases emit_trace)
qed

lemma closure_rounds_Cons:
  "run parse s (closure_rounds (e # es)) =
     run parse (run parse s [TransportError CLOSED e, TimerFired 0]) (closure_rounds es)"
  by (simp add: closure_rounds_def)

lemma closure_rounds_run:
  assumes "wired s" and "listeners_of (listeners s) ''error'' \<noteq> []"
    and "\<not> isReconnecting s" and "timers s = []"
    and "reconnectAttempts s = int a" and "maxReconnectAttempts s = int m" and "a \<le> m"
  shows "reconnectAttempts (run parse s (closure_rounds es)) = int (min (a + length es) m)
       \<and> length (timeouts (trace (run parse s (closure_rounds es)))) =
           length (timeouts (trace s)) + (min (a + length es) m - a)
       \<and> opened (trace (run parse s (closure_rounds es))) =
           opened (trace s) + (min (a + length es) m - a)
       \<and> terminal_errors (trace (run parse s (closure_rounds es))) =
           terminal_errors (trace s) + (a + length es - m)
       \<and> timers (run parse s (closure_rounds es)) = []"
  using assms
proof (induction es arbitrary: s a)
  case Nil
  then show ?case
    by (simp add: closure_rounds_def)
next
  case (Cons e es)
  let ?s1 = "run parse s [TransportError CLOSED e, TimerFired 0]"
  note r = closure_round [OF Cons.prems(1-4), of parse e]
  from r have w: "wired ?s1" and l: "listeners_of (listeners ?s1) ''error'' \<noteq> []"
    and i: "\<not> isReconnecting ?s1" and t: "timers ?s1 = []"
    and m: "maxReconnectAttempts ?s1 = int m"
    using Cons.prems(2,6) by simp_all
  show ?case
  proof (cases "a < m")
    case True
    with r Cons.prems(5,6) have a1: "reconnectAttempts ?s1 = int (Suc a)"
      and t1: "length (timeouts (trace ?s1)) = length (timeouts (trace s)) + 1"
      and o1: "opened (trace ?s1) = opened (trace s) + 1"
      and e1: "terminal_errors (trace ?s1) = terminal_errors (trace s)"
      by simp_all
    from True have le: "Suc a \<le> m"
      by simp
    from Cons.IH [OF w l i t a1 m le] t1 o1 e1 True show ?thesis
      unfolding closure_rounds_Cons by (simp add: min_def)
  next
    case False
    with Cons.prems(7) have am: "a = m"
      by simp
    with r Cons.prems(5,6) have a1: "reconnectAttempts ?s1 = int a"
      and t1: "length (timeouts (trace ?s1)) = length (timeouts (trace s))"
      and o1: "opened (trace ?s1) = opened (trace s)"
      and e1: "terminal_errors (trace ?s1) = terminal_errors (trace s) + 1"
      by simp_all
    from Cons.IH [OF w l i t a1 m Cons.prems(7)] t1 o1 e1 am show ?thesis
      unfolding closure_rounds_Cons by (simp add: min_def)
  qed
qed

text \<open>
  C2, as the code has it. Take a connection with an \<open>error\<close> listener registered, no
  reconnection under way, the attempt counter at 0 and the maximum \<open>m\<close>, and let \<open>n\<close>
  definitive closures reach it with no open in between, each answered by its timer
  (when one was set) before the next. Then a timer was set, and a transport opened, for
  each of the first \<open>m\<close> closures and for no later one, the counter stands at
  \<open>min n m\<close>, no timer is pending, and the terminal error has been emitted once for each
  closure after the \<open>m\<close>-th: \<open>n - m\<close> times, which is once only when \<open>n = m + 1\<close>.
\<close>

theorem reconnects_until_maximum_then_terminal_error_per_closure:
  assumes "wired s" and "listeners_of (listeners s) ''error'' \<noteq> []"
    and "\<not> isReconnecting s" and "timers s = []"
    and "reconnectAttempts s = 0" and "maxReconnectAttempts s = int m"
  shows "reconnectAttempts (run parse s (closure_rounds es)) = int (min (length es) m)
       \<and> length (timeouts (trace (run parse s (closure_rounds es)))) =
           length (timeouts (trace s)) + min (length es) m
       \<and> opened (trace (run parse s (closure_rounds es))) = opened (trace s) + min (length es) m
       \<and> terminal_errors (trace (run parse s (closure_rounds es))) =
           terminal_errors (trace s) + (length es - m)
       \<and> timers (run parse s (closure_rounds es)) = []"
proof -
  have a: "reconnectAttempts s = int 0"
    using assms(5) by simp
  from closure_rounds_run [OF assms(1-4) a assms(6), of parse es] show ?thesis
    by simp
qed

theorem reconnects_until_maximum_then_terminal_error_per_closure_witness:
  "reconnectAttempts (run example_parse (on (construct example_url None) ''error'' 0)
      (closure_rounds [1, 2, 3, 4, 5, 6, 7])) = 5
   \<and> length (timeouts (trace (run example_parse (on (construct example_url None) ''error'' 0)
      (closure_rounds [1, 2, 3, 4, 5, 6, 7])))) = 5
   \<and> opened (trace (run example_parse (on (construct example_url None) ''error'' 0)
      (closure_rounds [1, 2, 3, 4, 5, 6, 7]))) = 6
   \<and> terminal_errors (trace (run example_parse (on (construct example_url None) ''error'' 0)
      (closure_rounds [1, 2, 3, 4, 5, 6, 7]))) = 2"
proof -
  let ?s = "on (construct example_url None) ''error'' 0 :: nat conn"
  have w: "wired ?s"
    by (simp add: wired_def on_def construct_example)
  have l: "listeners_of (listeners ?s) ''error'' \<noteq> []"
    by (simp add: listeners_of_def on_def construct_example)
  have i: "\<not> isReconnecting ?s" and t: "timers ?s = []" and a: "reconnectAttempts ?s = 0"
    and m: "maxReconnectAttempts ?s = int 5"
    by (simp_all add: on_def construct_example)
  have tr: "trace ?s = [Opened ''https://host/sse/streams/stream_1'']"
    by (simp add: on_def construct_example)
  from reconnects_until_maximum_then_terminal_error_per_closure
         [OF w l i t a m, of example_parse "[1, 2, 3, 4, 5, 6, 7]"]
  show ?thesis
    by (simp add: tr)
qed

end
